theory Spec2Isabelle
  imports Main
begin

section \<open>Python values used by the stream manager\<close>

text \<open>
  The program is a Python/Qt application (\<^verbatim>\<open>src/stream_manager.py\<close>). Text is modelled as
  \<open>string\<close> (ASCII characters); Python exceptions that the program can meet are values of
  \<open>py_error\<close>, and a computation that may raise returns \<open>py_error + 'a\<close>.
\<close>

datatype py_error = IndexError | ValueError | AttributeError

definition dquote :: char where
  "dquote = CHR 0x22"

text \<open>\<^verbatim>\<open>s.startswith(p)\<close> and \<^verbatim>\<open>sub in s\<close> on strings.\<close>

fun startswith :: "string \<Rightarrow> string \<Rightarrow> bool" where
  "startswith [] s = True"
| "startswith (p # ps) [] = False"
| "startswith (p # ps) (c # cs) = (p = c \<and> startswith ps cs)"

fun py_in :: "string \<Rightarrow> string \<Rightarrow> bool" where
  "py_in sub [] = (sub = [])"
| "py_in sub (c # cs) = (startswith sub (c # cs) \<or> py_in sub cs)"

text \<open>\<^verbatim>\<open>s.split(sep)\<close> for a one-character separator: always at least one field.\<close>

fun py_split :: "char \<Rightarrow> string \<Rightarrow> string list" where
  "py_split sep [] = [[]]"
| "py_split sep (c # cs) =
     (if c = sep then [] # py_split sep cs
      else (case py_split sep cs of
              [] \<Rightarrow> [[c]]
            | p # ps \<Rightarrow> (c # p) # ps))"

text \<open>\<^verbatim>\<open>xs[i]\<close> for a non-negative index: raises \<^verbatim>\<open>IndexError\<close> out of range.\<close>

definition py_getitem :: "'a list \<Rightarrow> nat \<Rightarrow> py_error + 'a" where
  "py_getitem xs i = (if i < length xs then Inr (xs ! i) else Inl IndexError)"

text \<open>
  \<^verbatim>\<open>str.strip()\<close>: the ASCII characters for which \<^verbatim>\<open>str.isspace\<close> holds are
  tab, line feed, vertical tab, form feed, carriage return, the four separators
  \<open>0x1C\<close> to \<open>0x1F\<close>, and the space.
\<close>

definition is_space :: "char \<Rightarrow> bool" where
  "is_space c = (c \<in> set [CHR 0x09, CHR 0x0A, CHR 0x0B, CHR 0x0C, CHR 0x0D,
                            CHR 0x1C, CHR 0x1D, CHR 0x1E, CHR 0x1F, CHR 0x20])"

definition strip :: "string \<Rightarrow> string" where
  "strip s = rev (dropWhile is_space (rev (dropWhile is_space s)))"

text \<open>
  \<^verbatim>\<open>int(s)\<close> on text: surrounding whitespace is ignored, one sign is allowed, then decimal
  digits, where single underscores may separate digits. Anything else raises
  \<^verbatim>\<open>ValueError\<close> (here: \<open>None\<close>).
\<close>

definition is_digit :: "char \<Rightarrow> bool" where
  "is_digit c = (c \<in> set ''0123456789'')"

definition digit_val :: "char \<Rightarrow> nat" where
  "digit_val c = of_char c - 48"

fun digits_value :: "nat \<Rightarrow> string \<Rightarrow> nat option" where
  "digits_value acc [] = Some acc"
| "digits_value acc (c # cs) =
     (if is_digit c then digits_value (10 * acc + digit_val c) cs
      else if c = CHR ''_'' then
        (case cs of
           [] \<Rightarrow> None
         | d # ds \<Rightarrow> if is_digit d then digits_value (10 * acc + digit_val d) ds else None)
      else None)"

definition unsigned_value :: "string \<Rightarrow> nat option" where
  "unsigned_value s =
     (case s of
        [] \<Rightarrow> None
      | c # cs \<Rightarrow> if is_digit c then digits_value (digit_val c) cs else None)"

definition py_int :: "string \<Rightarrow> int option" where
  "py_int s =
     (case strip s of
        [] \<Rightarrow> None
      | c # cs \<Rightarrow>
          if c = CHR ''-'' then map_option (\<lambda>n. - int n) (unsigned_value cs)
          else if c = CHR ''+'' then map_option int (unsigned_value cs)
          else map_option int (unsigned_value (c # cs)))"

text \<open>\<^verbatim>\<open>str(n)\<close> on integers: decimal digits, with a minus sign for negative numbers.\<close>

definition digit_char :: "nat \<Rightarrow> char" where
  "digit_char n = ''0123456789'' ! n"

fun nat_digits :: "nat \<Rightarrow> string" where
  "nat_digits n = (if n < 10 then [digit_char n] else nat_digits (n div 10) @ [digit_char (n mod 10)])"

declare nat_digits.simps [simp del]

definition py_str :: "int \<Rightarrow> string" where
  "py_str i = (if i < 0 then CHR ''-'' # nat_digits (nat (- i)) else nat_digits (nat i))"

text \<open>\<^verbatim>\<open>s.replace(c, '')\<close> for a one-character pattern.\<close>

definition remove_char :: "char \<Rightarrow> string \<Rightarrow> string" where
  "remove_char c s = filter (\<lambda>x. x \<noteq> c) s"


section \<open>Device enumeration: \<^verbatim>\<open>list_media_devices\<close>\<close>

text \<open>
  A device is the dictionary \<^verbatim>\<open>{'name': ..., 'alt': ...}\<close>. The loop keeps two lists and two
  variables; \<^verbatim>\<open>last_device_list\<close> is a reference to one of the two lists (or \<^verbatim>\<open>None\<close>), so
  it is modelled by the name of the list it aliases.
\<close>

record device =
  name :: string
  alt :: string

datatype device_type = Video | Audio

record scan_state =
  video_devices :: "device list"
  audio_devices :: "device list"
  current_device_type :: "device_type option"
  last_device_list :: "device_type option"

definition list_of :: "device_type \<Rightarrow> scan_state \<Rightarrow> device list" where
  "list_of t st = (case t of Video \<Rightarrow> video_devices st | Audio \<Rightarrow> audio_devices st)"

definition set_list :: "device_type \<Rightarrow> device list \<Rightarrow> scan_state \<Rightarrow> scan_state" where
  "set_list t ds st =
     (case t of Video \<Rightarrow> st\<lparr>video_devices := ds\<rparr> | Audio \<Rightarrow> st\<lparr>audio_devices := ds\<rparr>)"

text \<open>Truth value of \<^verbatim>\<open>last_device_list\<close>: neither \<^verbatim>\<open>None\<close> nor an empty list.\<close>

definition last_truthy :: "scan_state \<Rightarrow> bool" where
  "last_truthy st =
     (case last_device_list st of None \<Rightarrow> False | Some t \<Rightarrow> list_of t st \<noteq> [])"

text \<open>\<^verbatim>\<open>last_device_list[-1]['alt'] = alt_name\<close>, reached only when the list is truthy.\<close>

definition set_last_alt :: "string \<Rightarrow> scan_state \<Rightarrow> scan_state" where
  "set_last_alt a st =
     (case last_device_list st of
        None \<Rightarrow> st
      | Some t \<Rightarrow>
          (case list_of t st of
             [] \<Rightarrow> st
           | d # ds \<Rightarrow> set_list t (butlast (d # ds) @ [(last (d # ds))\<lparr>alt := a\<rparr>]) st))"

definition video_header :: string where
  "video_header = ''DirectShow video devices''"

definition audio_header :: string where
  "audio_header = ''DirectShow audio devices''"

text \<open>The branch for an \<^verbatim>\<open>Alternative name\<close> line (lines 61 to 69 of the source).\<close>

definition alternative_name_line :: "scan_state \<Rightarrow> string \<Rightarrow> py_error + scan_state" where
  "alternative_name_line st line =
     (if dquote \<in> set line then
        (let parts = py_split dquote line in
         if length parts \<ge> 2 then
           (case py_getitem parts 1 of
              Inl e \<Rightarrow> Inl e
            | Inr alt_name \<Rightarrow> if last_truthy st then Inr (set_last_alt alt_name st) else Inr st)
         else Inr st)
      else Inr st)"

text \<open>The choice of \<^verbatim>\<open>target_list\<close> (lines 78 to 86).\<close>

definition target_list :: "scan_state \<Rightarrow> string \<Rightarrow> device_type option" where
  "target_list st line =
     (if py_in ''(video)'' line then Some Video
      else if py_in ''(audio)'' line then Some Audio
      else if current_device_type st = Some Video then Some Video
      else if current_device_type st = Some Audio then Some Audio
      else None)"

text \<open>The body of the \<^verbatim>\<open>try\<close> block for a quoted line (lines 74 to 91).\<close>

definition device_name_try :: "scan_state \<Rightarrow> string \<Rightarrow> py_error + scan_state" where
  "device_name_try st line =
     (let parts = py_split dquote line in
      if length parts \<ge> 2 then
        (case py_getitem parts 1 of
           Inl e \<Rightarrow> Inl e
         | Inr device_name \<Rightarrow>
             (case target_list st line of
                None \<Rightarrow> Inr st
              | Some t \<Rightarrow>
                  Inr ((set_list t (list_of t st @ [\<lparr>name = device_name, alt = device_name\<rparr>]) st)
                         \<lparr>last_device_list := Some t\<rparr>)))
      else Inr st)"

text \<open>\<^verbatim>\<open>try: ... except IndexError: continue\<close> around it.\<close>

definition device_name_line :: "scan_state \<Rightarrow> string \<Rightarrow> py_error + scan_state" where
  "device_name_line st line =
     (if dquote \<in> set line then
        (case device_name_try st line of
           Inl IndexError \<Rightarrow> Inr st
         | Inl e \<Rightarrow> Inl e
         | Inr st' \<Rightarrow> Inr st')
      else Inr st)"

text \<open>One iteration of the \<^verbatim>\<open>for line in lines\<close> loop.\<close>

definition scan_line :: "scan_state \<Rightarrow> string \<Rightarrow> py_error + scan_state" where
  "scan_line st line =
     (if py_in video_header line then
        Inr (st\<lparr>current_device_type := Some Video, last_device_list := Some Video\<rparr>)
      else if py_in audio_header line then
        Inr (st\<lparr>current_device_type := Some Audio, last_device_list := Some Audio\<rparr>)
      else if py_in ''Alternative name'' line \<and> last_truthy st then alternative_name_line st line
      else device_name_line st line)"

text \<open>The loop; an exception leaves it with the lists as they are at that point.\<close>

fun scan_lines :: "scan_state \<Rightarrow> string list \<Rightarrow> (py_error option \<times> scan_state)" where
  "scan_lines st [] = (None, st)"
| "scan_lines st (line # lines) =
     (case scan_line st line of
        Inl e \<Rightarrow> (Some e, st)
      | Inr st' \<Rightarrow> scan_lines st' lines)"

definition initial_scan :: scan_state where
  "initial_scan = \<lparr>video_devices = [], audio_devices = [],
                   current_device_type = None, last_device_list = None\<rparr>"

text \<open>
  \<^verbatim>\<open>output.splitlines()\<close> on ASCII text: a line ends at a line feed, a carriage return
  (with a following line feed), a vertical tab, a form feed or one of the separators
  \<open>0x1C\<close> to \<open>0x1E\<close>; no empty last line is produced.
\<close>

definition is_linebreak :: "char \<Rightarrow> bool" where
  "is_linebreak c = (c \<in> set [CHR 0x0A, CHR 0x0B, CHR 0x0C, CHR 0x1C, CHR 0x1D, CHR 0x1E])"

fun splitlines_from :: "string \<Rightarrow> string \<Rightarrow> string list" where
  "splitlines_from cur [] = (if cur = [] then [] else [rev cur])"
| "splitlines_from cur (c # cs) =
     (if c = CHR 0x0D then
        (case cs of
           [] \<Rightarrow> [rev cur]
         | d # ds \<Rightarrow> if d = CHR 0x0A then rev cur # splitlines_from [] ds
                     else rev cur # splitlines_from [] (d # ds))
      else if is_linebreak c then rev cur # splitlines_from [] cs
      else splitlines_from (c # cur) cs)"

definition splitlines :: "string \<Rightarrow> string list" where
  "splitlines s = splitlines_from [] s"

text \<open>
  The outcome of \<^verbatim>\<open>subprocess.run\<close>: the executable is missing, another exception with its
  message, or the captured standard error text.
\<close>

datatype run_outcome = Run_FileNotFound | Run_Failed string | Run_Stderr string

definition list_media_devices :: "run_outcome \<Rightarrow> device list \<times> device list \<times> string" where
  "list_media_devices r =
     (case r of
        Run_FileNotFound \<Rightarrow> ([], [], ''ffmpeg.exe not found. Cannot list devices.'')
      | Run_Failed e \<Rightarrow> ([], [], ''An error occurred while listing devices: '' @ e)
      | Run_Stderr output \<Rightarrow>
          (case scan_lines initial_scan (splitlines output) of
             (None, st) \<Rightarrow> (video_devices st, audio_devices st, output)
           | (Some e, st) \<Rightarrow>
               (video_devices st, audio_devices st,
                ''An error occurred while listing devices: '' @
                  (case e of IndexError \<Rightarrow> ''list index out of range''
                   | ValueError \<Rightarrow> ''ValueError'' | AttributeError \<Rightarrow> ''AttributeError''))))"


section \<open>The encoder worker: \<^verbatim>\<open>FFmpegWorker\<close>\<close>

text \<open>
  The worker holds the command, the process handle (\<^verbatim>\<open>None\<close> or a \<^verbatim>\<open>Popen\<close> object, of which
  only \<^verbatim>\<open>poll()\<close> matters here) and the flag \<^verbatim>\<open>running\<close>. Its two signals are the events it
  emits.
\<close>

record popen =
  poll :: "int option"

record worker =
  command :: "string list"
  process :: "popen option"
  running :: bool

datatype worker_event = Log_message string | Process_finished int

text \<open>
  What the graceful attempt of \<^verbatim>\<open>stop\<close> meets: the process leaves within the five seconds,
  \<^verbatim>\<open>wait\<close> raises \<^verbatim>\<open>TimeoutExpired\<close>, or writing to the input stream raises (with its
  message).
\<close>

datatype stop_outcome = Graceful_Exit | Timeout_Expired | Write_Failed string

definition stop :: "stop_outcome \<Rightarrow> worker \<Rightarrow> worker \<times> worker_event list" where
  "stop outcome w =
     (let w1 = w\<lparr>running := False\<rparr> in
      case process w1 of
        None \<Rightarrow> (w1, [Process_finished 0])
      | Some p \<Rightarrow>
          if poll p = None then
            (w1\<lparr>process := None\<rparr>,
             [Log_message ''Stopping FFmpeg process...''] @
             (case outcome of
                Graceful_Exit \<Rightarrow> []
              | Timeout_Expired \<Rightarrow> [Log_message ''FFmpeg did not stop gracefully, terminating.'']
              | Write_Failed e \<Rightarrow> [Log_message (''Error stopping FFmpeg: '' @ e)]) @
             [Log_message ''FFmpeg process stopped.'', Process_finished 0])
          else (w1, [Process_finished 0]))"

text \<open>
  The reader thread. \<^verbatim>\<open>run_launch\<close> is \<^verbatim>\<open>run\<close> up to the creation of the process, with the
  two handlers for a failed launch; \<^verbatim>\<open>run_after_loop\<close> is \<^verbatim>\<open>run\<close> from the end of the reading
  loop (lines 146 to 158), executed on the worker as it is at that moment, where \<open>rc\<close> is the
  exit code that \<^verbatim>\<open>wait()\<close> returns. Reading \<^verbatim>\<open>self.process.stdout\<close> when
  \<^verbatim>\<open>self.process\<close> is \<^verbatim>\<open>None\<close> raises \<^verbatim>\<open>AttributeError\<close>, which the last handler of
  \<^verbatim>\<open>run\<close> catches.
\<close>

datatype popen_outcome = Popen_FileNotFound | Popen_Failed string | Popen_Started

text \<open>
  The reading loop (lines 141 to 144): every line read comes with the value of
  \<^verbatim>\<open>self.running\<close> that the loop finds when it has read it, since \<^verbatim>\<open>stop\<close> clears the flag
  from another thread. The loop ends at the first line read with the flag cleared, or with
  the stream.
\<close>

fun reader_loop :: "(string \<times> bool) list \<Rightarrow> worker_event list" where
  "reader_loop [] = []"
| "reader_loop ((line, running_now) # rest) =
     (if \<not> running_now then [] else Log_message (strip line) # reader_loop rest)"

definition run_launch :: "popen_outcome \<Rightarrow> worker \<Rightarrow> worker \<times> worker_event list" where
  "run_launch outcome w =
     (case outcome of
        Popen_FileNotFound \<Rightarrow>
          (w\<lparr>running := False\<rparr>,
           [Log_message ''Error: ffmpeg.exe not found. Please check the path.'',
            Process_finished (- 1)])
      | Popen_Failed e \<Rightarrow>
          (w\<lparr>running := False\<rparr>,
           [Log_message (''An unexpected error occurred: '' @ e), Process_finished (- 1)])
      | Popen_Started \<Rightarrow> (w\<lparr>running := True, process := Some \<lparr>poll = None\<rparr>\<rparr>, []))"

definition run_after_loop :: "int \<Rightarrow> worker \<Rightarrow> worker \<times> worker_event list" where
  "run_after_loop rc w =
     (case process w of
        None \<Rightarrow>
          (w\<lparr>running := False\<rparr>,
           [Log_message (''An unexpected error occurred: '' @
              [CHR 0x27] @ ''NoneType'' @ [CHR 0x27] @ '' object has no attribute '' @
              [CHR 0x27] @ ''stdout'' @ [CHR 0x27]),
            Process_finished (- 1)])
      | Some p \<Rightarrow>
          (w\<lparr>running := False\<rparr>, if running w then [Process_finished rc] else []))"


section \<open>A channel: \<^verbatim>\<open>StreamTab\<close>\<close>

text \<open>
  A device selector is a \<^verbatim>\<open>QComboBox\<close>: its items (text and user data) and the current index,
  \<open>None\<close> standing for Qt's \<open>-1\<close>. \<^verbatim>\<open>currentData()\<close> is \<^verbatim>\<open>None\<close> and \<^verbatim>\<open>currentText()\<close> is empty
  when there is no current item. The four editable selectors (size, framerate, bitrates) are
  modelled by their current text.
\<close>

record combo_box =
  items :: "(string \<times> string) list"
  currentIndex :: "nat option"

definition empty_combo :: combo_box where
  "empty_combo = \<lparr>items = [], currentIndex = None\<rparr>"

definition currentData :: "combo_box \<Rightarrow> string option" where
  "currentData cb =
     (case currentIndex cb of
        None \<Rightarrow> None
      | Some k \<Rightarrow> if k < length (items cb) then Some (snd (items cb ! k)) else None)"

definition currentText :: "combo_box \<Rightarrow> string" where
  "currentText cb =
     (case currentIndex cb of
        None \<Rightarrow> []
      | Some k \<Rightarrow> if k < length (items cb) then fst (items cb ! k) else [])"

text \<open>\<^verbatim>\<open>addItem\<close>: the first item added to an empty box becomes the current one.\<close>

definition addItem :: "string \<Rightarrow> string \<Rightarrow> combo_box \<Rightarrow> combo_box" where
  "addItem label data cb =
     \<lparr>items = items cb @ [(label, data)],
      currentIndex = (if items cb = [] then Some 0 else currentIndex cb)\<rparr>"

text \<open>\<^verbatim>\<open>findText\<close> and \<^verbatim>\<open>findData\<close>: the first index that matches exactly.\<close>

fun find_index :: "('a \<Rightarrow> bool) \<Rightarrow> 'a list \<Rightarrow> nat option" where
  "find_index P [] = None"
| "find_index P (x # xs) = (if P x then Some 0 else map_option Suc (find_index P xs))"

definition findText :: "string \<Rightarrow> combo_box \<Rightarrow> nat option" where
  "findText t cb = find_index (\<lambda>it. fst it = t) (items cb)"

definition findData :: "string \<Rightarrow> combo_box \<Rightarrow> nat option" where
  "findData d cb = find_index (\<lambda>it. snd it = d) (items cb)"

record stream_tab =
  channel_name :: string
  input_video_device :: combo_box
  input_audio_device :: combo_box
  input_video_size :: string
  input_framerate :: string
  input_video_bitrate :: string
  input_audio_bitrate :: string
  cb_auto_start :: bool
  is_streaming :: bool
  ffmpeg_worker :: "worker option"
  log_view :: "string list"

text \<open>
  The outside world as one call of the program sees it: \<^verbatim>\<open>os.path.exists\<close>,
  \<^verbatim>\<open>os.path.join\<close>, the outcome of the device enumeration, of the \<^verbatim>\<open>try\<close> block that launches the media
  server (one of its two calls raised, or the new process id) and of \<^verbatim>\<open>os.makedirs\<close>
  (\<open>None\<close>: no exception).
\<close>

datatype nginx_launch = Taskkill_Raised string | Popen_Raised string | Launched nat

record world =
  path_exists :: "string \<Rightarrow> bool"
  path_join :: "string \<Rightarrow> string \<Rightarrow> string"
  enumerate_devices :: run_outcome
  launch_nginx :: nginx_launch
  makedirs_error :: "string option"

definition tab_log :: "string \<Rightarrow> stream_tab \<Rightarrow> stream_tab" where
  "tab_log message tab = tab\<lparr>log_view := log_view tab @ [message]\<rparr>"



text \<open>\<^verbatim>\<open>channel_name.replace(" ", "").lower()\<close>, on ASCII letters.\<close>

definition lower_char :: "char \<Rightarrow> char" where
  "lower_char c =
     (if (65::nat) \<le> of_char c \<and> of_char c \<le> (90::nat) then char_of (of_char c + (32::nat)) else c)"

definition safe_name :: "string \<Rightarrow> string" where
  "safe_name n = map lower_char (remove_char CHR '' '' n)"

text \<open>The labelled items that \<^verbatim>\<open>populate_devices\<close> adds: \<^verbatim>\<open>f"{dev['name']}  [#{i}]"\<close>.\<close>

fun device_items :: "nat \<Rightarrow> device list \<Rightarrow> (string \<times> string) list" where
  "device_items i [] = []"
| "device_items i (dev # devs) =
     (name dev @ ''  [#'' @ py_str (int i) @ '']'', alt dev) # device_items (Suc i) devs"

definition fill :: "(string \<times> string) list \<Rightarrow> combo_box" where
  "fill its = fold (\<lambda>it cb. addItem (fst it) (snd it) cb) its empty_combo"

definition restore_selection :: "string \<Rightarrow> combo_box \<Rightarrow> combo_box" where
  "restore_selection t cb =
     (case findText t cb of None \<Rightarrow> cb | Some k \<Rightarrow> cb\<lparr>currentIndex := Some k\<rparr>)"

definition populate_devices :: "world \<Rightarrow> string \<Rightarrow> stream_tab \<Rightarrow> stream_tab" where
  "populate_devices w ffmpeg_path tab =
     (if \<not> path_exists w ffmpeg_path then tab
      else
        (let current_video = currentText (input_video_device tab);
             current_audio = currentText (input_audio_device tab);
             (video_devs, audio_devs, _) = list_media_devices (enumerate_devices w)
         in tab\<lparr>input_video_device :=
                   restore_selection current_video (fill (device_items 1 video_devs)),
                 input_audio_device :=
                   restore_selection current_audio (fill (device_items 1 audio_devs))\<rparr>))"

text \<open>\<^verbatim>\<open>f'{x}'\<close> for a value that is a string or \<^verbatim>\<open>None\<close>.\<close>

definition format_opt :: "string option \<Rightarrow> string" where
  "format_opt x = (case x of None \<Rightarrow> ''None'' | Some s \<Rightarrow> s)"

text \<open>
  \<^verbatim>\<open>build_ffmpeg_command\<close>. \<^verbatim>\<open>StreamTab\<close> has a method \<^verbatim>\<open>log\<close> and no attribute
  \<^verbatim>\<open>log_message\<close> (that signal belongs to \<^verbatim>\<open>FFmpegWorker\<close>), so line 415 raises
  \<^verbatim>\<open>AttributeError\<close> before \<^verbatim>\<open>return None\<close> is reached. The two \<^verbatim>\<open>int(...)\<close> conversions
  raise \<^verbatim>\<open>ValueError\<close> on text that is not an integer; \<^verbatim>\<open>int(text or 25)\<close> is 25 on empty
  text.
\<close>

definition framerate_or_default :: "string \<Rightarrow> int option" where
  "framerate_or_default t = (if t = [] then Some 25 else py_int t)"

definition build_ffmpeg_command ::
  "world \<Rightarrow> string \<Rightarrow> stream_tab \<Rightarrow> string \<Rightarrow> py_error + string list option" where
  "build_ffmpeg_command w ffmpeg_exe tab output_dir =
     (if \<not> path_exists w ffmpeg_exe then Inl AttributeError
      else
        (let command0 =
               [ffmpeg_exe, ''-hide_banner'', ''-loglevel'', ''info'', ''-f'', ''dshow'',
                ''-rtbufsize'', ''512M''];
             command1 =
               (if strip (input_framerate tab) \<noteq> []
                then command0 @ [''-framerate'', strip (input_framerate tab)]
                else command0);
             video_dev = currentData (input_video_device tab);
             audio_dev = currentData (input_audio_device tab);
             command2 = command1 @
               [''-thread_queue_size'', ''1024'',
                ''-i'', ''video='' @ format_opt video_dev @ '':audio='' @ format_opt audio_dev,
                ''-map'', ''0:v:0'', ''-map'', ''0:a:0'',
                ''-c:v'', ''libx264'',
                ''-preset'', ''superfast'',
                ''-tune'', ''zerolatency'',
                ''-profile:v'', ''baseline'',
                ''-level'', ''3.1'',
                ''-pix_fmt'', ''yuv420p'',
                ''-fps_mode'', ''cfr''];
             command3 =
               (if strip (input_video_size tab) \<noteq> []
                then command2 @
                  [''-vf'', ''scale='' @ strip (input_video_size tab) @ '':flags=lanczos'']
                else command2);
             bitrate = input_video_bitrate tab
         in case framerate_or_default (input_framerate tab) of
              None \<Rightarrow> Inl ValueError
            | Some fps \<Rightarrow>
                (case py_int (remove_char CHR ''k'' bitrate) of
                   None \<Rightarrow> Inl ValueError
                 | Some kbps \<Rightarrow>
                     (let bufsize = py_str (kbps * 2) @ ''k'';
                          gop = fps * 2
                      in Inr (Some (command3 @
                           [''-b:v'', bitrate,
                            ''-maxrate'', bitrate,
                            ''-bufsize'', bufsize,
                            ''-g'', py_str gop,
                            ''-keyint_min'', py_str gop,
                            ''-c:a'', ''aac'',
                            ''-b:a'', input_audio_bitrate tab,
                            ''-ar'', ''44100'',
                            ''-f'', ''hls'',
                            ''-hls_time'', ''2'',
                            ''-hls_list_size'', ''6'',
                            ''-hls_flags'',
                            ''delete_segments+program_date_time+independent_segments'',
                            ''-hls_segment_filename'', path_join w output_dir ''segment_%d.ts'',
                            path_join w output_dir ''index.m3u8'']))))))"


section \<open>The application: \<^verbatim>\<open>StreamManagerApp\<close>\<close>

text \<open>
  The media server handle is \<^verbatim>\<open>None\<close> or a \<^verbatim>\<open>Popen\<close> object; \<open>exited\<close> says that its
  \<^verbatim>\<open>poll()\<close> is no longer \<^verbatim>\<open>None\<close>. Messages of \<^verbatim>\<open>StreamManagerApp.log\<close> are collected in
  \<open>system_log\<close> (the program shows them in the log view of the tab that is current).
  \<open>autostart_timer\<close> records that \<^verbatim>\<open>QTimer.singleShot(2000, self.start_all_streams)\<close> is
  pending. Tabs are objects; a tab is identified by its position in \<^verbatim>\<open>stream_tabs\<close>.
\<close>

record nginx_handle =
  pid :: nat
  exited :: bool

record app =
  stream_tabs :: "stream_tab list"
  nginx_process :: "nginx_handle option"
  path_ffmpeg :: string
  path_nginx :: string
  path_hls :: string
  system_log :: "string list"
  autostart_timer :: bool

definition app_log :: "string \<Rightarrow> app \<Rightarrow> app" where
  "app_log message s = s\<lparr>system_log := system_log s @ [''[System] '' @ message]\<rparr>"

definition nginx_alive :: "app \<Rightarrow> bool" where
  "nginx_alive s = (case nginx_process s of None \<Rightarrow> False | Some h \<Rightarrow> \<not> exited h)"

definition ensure_nginx_running :: "world \<Rightarrow> app \<Rightarrow> bool \<times> app" where
  "ensure_nginx_running w s =
     (if nginx_alive s then (True, s)
      else
        (let nginx_dir = path_nginx s;
             nginx_exe = path_join w nginx_dir ''nginx.exe''
         in if \<not> path_exists w nginx_exe then
              (False, app_log (''Nginx not found at: '' @ nginx_exe) s)
            else
              (case launch_nginx w of
                 Taskkill_Raised e \<Rightarrow> (False, app_log (''Failed to start Nginx: '' @ e) s)
               | Popen_Raised e \<Rightarrow>
                   (False, app_log (''Failed to start Nginx: '' @ e) (app_log ''Starting Nginx...'' s))
               | Launched p \<Rightarrow>
                   (True,
                    app_log (''Nginx started with PID: '' @ py_str (int p))
                      ((app_log ''Starting Nginx...'' s)
                         \<lparr>nginx_process := Some \<lparr>pid = p, exited = False\<rparr>\<rparr>)))))"


text \<open>
  \<^verbatim>\<open>is_video_device_in_use(device_alt, current_tab)\<close>: the loop over \<^verbatim>\<open>stream_tabs\<close>, the
  position \<open>k\<close> of the tab at hand standing for its identity.
\<close>

fun in_use_from :: "nat \<Rightarrow> stream_tab list \<Rightarrow> string option \<Rightarrow> nat \<Rightarrow> string option" where
  "in_use_from k [] device_alt current_tab = None"
| "in_use_from k (tab # tabs) device_alt current_tab =
     (if k = current_tab then in_use_from (Suc k) tabs device_alt current_tab
      else if is_streaming tab \<and> currentData (input_video_device tab) = device_alt
        then Some (channel_name tab)
      else in_use_from (Suc k) tabs device_alt current_tab)"

definition is_video_device_in_use :: "app \<Rightarrow> string option \<Rightarrow> nat \<Rightarrow> string option" where
  "is_video_device_in_use s device_alt current_tab =
     in_use_from 0 (stream_tabs s) device_alt current_tab"

text \<open>Truth value of \<^verbatim>\<open>used_in\<close>: a channel name that is not empty.\<close>

definition truthy :: "string option \<Rightarrow> bool" where
  "truthy x = (case x of None \<Rightarrow> False | Some n \<Rightarrow> n \<noteq> [])"

text \<open>
  \<^verbatim>\<open>start_stream\<close> of the tab at position \<open>i\<close>. The method returns nothing; the result names
  the \<^verbatim>\<open>return\<close> that ended it (with the channel named in the warning dialog), or the exception
  that left it.
\<close>

datatype start_result =
  Started | Nginx_Unavailable | Device_In_Use string | Directory_Error | No_Command
  | Raised py_error

definition update_tab :: "nat \<Rightarrow> (stream_tab \<Rightarrow> stream_tab) \<Rightarrow> app \<Rightarrow> app" where
  "update_tab i f s = s\<lparr>stream_tabs := (stream_tabs s)[i := f (stream_tabs s ! i)]\<rparr>"

definition new_worker :: "string list \<Rightarrow> worker" where
  "new_worker cmd = \<lparr>command = cmd, process = None, running = False\<rparr>"

definition start_stream :: "world \<Rightarrow> nat \<Rightarrow> app \<Rightarrow> start_result \<times> app" where
  "start_stream w i s =
     (case ensure_nginx_running w s of
        (False, s1) \<Rightarrow> (Nginx_Unavailable, s1)
      | (True, s1) \<Rightarrow>
          (let s2 = update_tab i (tab_log ''Starting stream...'') s1;
               tab = stream_tabs s2 ! i;
               video_alt = currentData (input_video_device tab);
               used_in = is_video_device_in_use s2 video_alt i
           in if truthy used_in then (Device_In_Use (the used_in), s2)
              else
                (let hls_root = path_hls s2;
                     channel_dir = path_join w hls_root (safe_name (channel_name tab))
                 in case makedirs_error w of
                      Some e \<Rightarrow>
                        (Directory_Error,
                         update_tab i (tab_log (''Error creating directory: '' @ e)) s2)
                    | None \<Rightarrow>
                        (case build_ffmpeg_command w (path_ffmpeg s2) tab channel_dir of
                           Inl e \<Rightarrow> (Raised e, s2)
                         | Inr None \<Rightarrow> (No_Command, s2)
                         | Inr (Some cmd) \<Rightarrow>
                             if cmd = [] then (No_Command, s2)
                             else
                               (Started,
                                update_tab i
                                  (\<lambda>t. t\<lparr>ffmpeg_worker := Some (new_worker cmd),
                                         is_streaming := True\<rparr>) s2)))))"


text \<open>
  A new tab as \<^verbatim>\<open>StreamTab.__init__\<close> leaves it: the editable selectors show the first of
  their preset items, and the device selectors are populated.
\<close>

definition new_tab :: "world \<Rightarrow> string \<Rightarrow> string \<Rightarrow> stream_tab" where
  "new_tab w ffmpeg_path n =
     populate_devices w ffmpeg_path
       \<lparr>channel_name = n,
        input_video_device = empty_combo,
        input_audio_device = empty_combo,
        input_video_size = ''1920x1080'',
        input_framerate = ''60'',
        input_video_bitrate = ''6000k'',
        input_audio_bitrate = ''192k'',
        cb_auto_start = False,
        is_streaming = False,
        ffmpeg_worker = None,
        log_view = []\<rparr>"

text \<open>
  The dictionary of \<^verbatim>\<open>get_config\<close>, which is what the configuration file stores for a
  channel (strings, \<^verbatim>\<open>None\<close> and booleans pass through JSON unchanged). All ten keys are
  present in a dictionary that \<^verbatim>\<open>get_config\<close> made, so the defaults that \<^verbatim>\<open>load_config\<close> has
  for missing keys are not modelled.
\<close>

record channel_config =
  conf_channel_name :: string
  conf_video_device_alt :: "string option"
  conf_audio_device_alt :: "string option"
  conf_video_device_label :: string
  conf_audio_device_label :: string
  conf_video_size :: string
  conf_framerate :: string
  conf_video_bitrate :: string
  conf_audio_bitrate :: string
  conf_auto_start :: bool


text \<open>\<^verbatim>\<open>if alt: index = findData(alt); if index >= 0: setCurrentIndex(index)\<close>.\<close>

definition select_saved :: "string option \<Rightarrow> combo_box \<Rightarrow> combo_box" where
  "select_saved saved cb =
     (case saved of
        None \<Rightarrow> cb
      | Some a \<Rightarrow>
          if a = [] then cb
          else (case findData a cb of None \<Rightarrow> cb | Some k \<Rightarrow> cb\<lparr>currentIndex := Some k\<rparr>))"

definition tab_load_config :: "world \<Rightarrow> string \<Rightarrow> channel_config \<Rightarrow> stream_tab \<Rightarrow> stream_tab" where
  "tab_load_config w ffmpeg_path config tab =
     (let tab1 = populate_devices w ffmpeg_path tab;
          tab2 = tab1\<lparr>input_video_size := conf_video_size config,
                      input_framerate := conf_framerate config,
                      input_video_bitrate := conf_video_bitrate config,
                      input_audio_bitrate := conf_audio_bitrate config,
                      cb_auto_start := conf_auto_start config\<rparr>;
          tab3 = tab2\<lparr>input_video_device :=
                        select_saved (conf_video_device_alt config) (input_video_device tab2)\<rparr>
      in tab3\<lparr>input_audio_device :=
                 select_saved (conf_audio_device_alt config) (input_audio_device tab3)\<rparr>)"

text \<open>
  \<^verbatim>\<open>add_new_tab(name, config)\<close>: a missing or empty name becomes \<^verbatim>\<open>Channel N\<close>, with \<open>N\<close>
  one more than the number of tabs.
\<close>

definition add_new_tab :: "world \<Rightarrow> string option \<Rightarrow> channel_config option \<Rightarrow> app \<Rightarrow> app" where
  "add_new_tab w n config s =
     (let count = int (length (stream_tabs s)) + 1;
          n' = (case n of
                  None \<Rightarrow> ''Channel '' @ py_str count
                | Some x \<Rightarrow> if x = [] then ''Channel '' @ py_str count else x);
          tab = new_tab w (path_ffmpeg s) n';
          tab' = (case config of
                    None \<Rightarrow> tab
                  | Some c \<Rightarrow> tab_load_config w (path_ffmpeg s) c tab)
      in s\<lparr>stream_tabs := stream_tabs s @ [tab']\<rparr>)"




text \<open>The application before \<^verbatim>\<open>load_config\<close> has added a tab.\<close>

definition fresh_app :: "string \<Rightarrow> string \<Rightarrow> string \<Rightarrow> app" where
  "fresh_app ffmpeg nginx hls =
     \<lparr>stream_tabs = [], nginx_process = None, path_ffmpeg = ffmpeg, path_nginx = nginx,
      path_hls = hls, system_log = [], autostart_timer = False\<rparr>"

section \<open>Runs of the application\<close>

text \<open>
  What \<^verbatim>\<open>is_video_device_in_use\<close> reads of a tab: its name, whether it is streaming, and the
  user data of the video selector.
\<close>

definition video_alt_of :: "stream_tab \<Rightarrow> string option" where
  "video_alt_of tab = currentData (input_video_device tab)"







section \<open>Saving and restoring the channels\<close>




section \<open>Example inputs\<close>

text \<open>
  A world in which every path exists and the enumeration lists two cameras and one
  microphone, and two applications with two channels each: in \<open>same_camera\<close> both channels
  show the first camera; in \<open>two_cameras\<close> the second channel was loaded with the second
  camera selected. Both channels use the only microphone.
\<close>

definition example_listing :: string where
  "example_listing =
     ''DirectShow video devices'' @ [CHR 0x0A] @
     [dquote] @ ''CamA'' @ [dquote] @ [CHR 0x0A] @
     [dquote] @ ''CamB'' @ [dquote] @ [CHR 0x0A] @
     ''DirectShow audio devices'' @ [CHR 0x0A] @
     [dquote] @ ''Mic'' @ [dquote]"

definition example_world :: world where
  "example_world =
     \<lparr>path_exists = (\<lambda>p. True), path_join = (\<lambda>a b. a @ ''/'' @ b),
      enumerate_devices = Run_Stderr example_listing, launch_nginx = Launched 4242,
      makedirs_error = None\<rparr>"




text \<open>The device selectors that the example enumeration gives.\<close>

definition camera_box :: "nat \<Rightarrow> combo_box" where
  "camera_box k = \<lparr>items = [(''CamA  [#1]'', ''CamA''), (''CamB  [#2]'', ''CamB'')],
                   currentIndex = Some k\<rparr>"

definition microphone_box :: combo_box where
  "microphone_box = \<lparr>items = [(''Mic  [#1]'', ''Mic'')], currentIndex = Some 0\<rparr>"

text \<open>A channel of the examples: the name and the camera vary, the rest is as created.\<close>

definition example_tab :: "string \<Rightarrow> nat \<Rightarrow> stream_tab" where
  "example_tab n k =
     \<lparr>channel_name = n,
      input_video_device = camera_box k,
      input_audio_device = microphone_box,
      input_video_size = ''1920x1080'',
      input_framerate = ''60'',
      input_video_bitrate = ''6000k'',
      input_audio_bitrate = ''192k'',
      cb_auto_start = False,
      is_streaming = False,
      ffmpeg_worker = None,
      log_view = []\<rparr>"

text \<open>The example world after the second camera has been unplugged.\<close>

definition one_camera_listing :: string where
  "one_camera_listing =
     ''DirectShow video devices'' @ [CHR 0x0A] @
     [dquote] @ ''CamA'' @ [dquote] @ [CHR 0x0A] @
     ''DirectShow audio devices'' @ [CHR 0x0A] @
     [dquote] @ ''Mic'' @ [dquote]"

definition one_camera_world :: world where
  "one_camera_world = example_world\<lparr>enumerate_devices := Run_Stderr one_camera_listing\<rparr>"

section \<open>Properties of the command builder\<close>














section \<open>Adding a channel\<close>

lemma populate_devices_keeps:
  "channel_name (populate_devices w p tab) = channel_name tab"
  "is_streaming (populate_devices w p tab) = is_streaming tab"
  "input_video_size (populate_devices w p tab) = input_video_size tab"
  "input_framerate (populate_devices w p tab) = input_framerate tab"
  "input_video_bitrate (populate_devices w p tab) = input_video_bitrate tab"
  "input_audio_bitrate (populate_devices w p tab) = input_audio_bitrate tab"
  "cb_auto_start (populate_devices w p tab) = cb_auto_start tab"
  by (simp_all add: populate_devices_def Let_def split: prod.splits)

lemma new_tab_fields:
  "channel_name (new_tab w p n) = n"
  "is_streaming (new_tab w p n) = False"
  by (simp_all add: new_tab_def populate_devices_keeps)

lemma tab_load_config_keeps:
  "channel_name (tab_load_config w p c tab) = channel_name tab"
  "is_streaming (tab_load_config w p c tab) = is_streaming tab"
  by (simp_all add: tab_load_config_def Let_def populate_devices_keeps)


lemma py_str_1: "py_str 1 = ''1''"
  by (simp add: py_str_def nat_digits.simps digit_char_def)

lemma py_str_2: "py_str 2 = ''2''"
  by (simp add: py_str_def nat_digits.simps digit_char_def)

text \<open>
  C5, as amended. \<open>add_new_tab\<close> has no failure: for every name and configuration it
  appends exactly one channel, which is not streaming, and changes nothing else. The
  channel bears the given name, or \<open>Channel N\<close> (\<open>N\<close> the number of channels plus one) when
  the name is missing or empty; no comparison with the names already present is made.
\<close>

theorem add_new_tab_always_appends:
  "\<exists>tab. add_new_tab w n config s = s\<lparr>stream_tabs := stream_tabs s @ [tab]\<rparr>
     \<and> channel_name tab =
         (case n of
            None \<Rightarrow> ''Channel '' @ py_str (int (length (stream_tabs s)) + 1)
          | Some x \<Rightarrow>
              if x = [] then ''Channel '' @ py_str (int (length (stream_tabs s)) + 1) else x)
     \<and> is_streaming tab = False"
proof -
  let ?n = "case n of
              None \<Rightarrow> ''Channel '' @ py_str (int (length (stream_tabs s)) + 1)
            | Some x \<Rightarrow>
                if x = [] then ''Channel '' @ py_str (int (length (stream_tabs s)) + 1) else x"
  let ?tab = "case config of
                None \<Rightarrow> new_tab w (path_ffmpeg s) ?n
              | Some c \<Rightarrow> tab_load_config w (path_ffmpeg s) c (new_tab w (path_ffmpeg s) ?n)"
  have "add_new_tab w n config s = s\<lparr>stream_tabs := stream_tabs s @ [?tab]\<rparr>"
    by (simp add: add_new_tab_def Let_def)
  moreover have "channel_name ?tab = ?n"
    by (cases config) (simp_all add: new_tab_fields tab_load_config_keeps)
  moreover have "is_streaming ?tab = False"
    by (cases config) (simp_all add: new_tab_fields tab_load_config_keeps)
  ultimately show ?thesis
    by blast
qed

text \<open>
  The claim as stated fails: with the channel \<open>Channel 1\<close> present, adding \<open>channel1\<close>
  (the same slug) gives two channels.
\<close>

theorem add_duplicate_slug_counterexample:
  "safe_name ''channel1'' = safe_name ''Channel 1''
   \<and> map channel_name
       (stream_tabs
          (add_new_tab
             \<lparr>path_exists = (\<lambda>p. False), path_join = (\<lambda>a b. a @ ''/'' @ b),
              enumerate_devices = Run_FileNotFound, launch_nginx = Launched 1,
              makedirs_error = None\<rparr>
             (Some ''channel1'') None
             (add_new_tab
                \<lparr>path_exists = (\<lambda>p. False), path_join = (\<lambda>a b. a @ ''/'' @ b),
                 enumerate_devices = Run_FileNotFound, launch_nginx = Launched 1,
                 makedirs_error = None\<rparr>
                (Some ''Channel 1'') None
                (fresh_app ''ffmpeg.exe'' ''nginx'' ''hls''))))
     = [''Channel 1'', ''channel1'']"
proof -
  have "safe_name ''channel1'' = safe_name ''Channel 1''"
    by code_simp
  then show ?thesis
    by (simp add: add_new_tab_def Let_def new_tab_fields fresh_app_def)
qed

theorem add_new_tab_always_appends_witness:
  "\<exists>tab. add_new_tab
            \<lparr>path_exists = (\<lambda>p. False), path_join = (\<lambda>a b. a @ ''/'' @ b),
             enumerate_devices = Run_FileNotFound, launch_nginx = Launched 1,
             makedirs_error = None\<rparr>
            (Some ''channel1'') None (fresh_app ''ffmpeg.exe'' ''nginx'' ''hls'')
          = (fresh_app ''ffmpeg.exe'' ''nginx'' ''hls'')\<lparr>stream_tabs := [tab]\<rparr>
     \<and> channel_name tab = ''channel1'' \<and> is_streaming tab = False"
  using add_new_tab_always_appends
    [of "\<lparr>path_exists = (\<lambda>p. False), path_join = (\<lambda>a b. a @ ''/'' @ b),
          enumerate_devices = Run_FileNotFound, launch_nginx = Launched 1,
          makedirs_error = None\<rparr>"
        "Some ''channel1''" None "fresh_app ''ffmpeg.exe'' ''nginx'' ''hls''"]
  by (simp add: fresh_app_def)

section \<open>Starting a channel without the encoder executable\<close>

lemma build_without_executable:
  "\<not> path_exists w exe \<Longrightarrow> build_ffmpeg_command w exe tab out = Inl AttributeError"
  by (simp add: build_ffmpeg_command_def)

text \<open>
  C3. The program at the input where the claim fails: one channel, the media server
  executable present, the encoder executable absent. \<open>start_stream\<close> is left by
  \<open>AttributeError\<close>; the channel's log holds only \<open>Starting stream...\<close>, no worker exists (so
  no terminal event is emitted), and the media server launched before stays running.
\<close>

theorem start_without_executable_raises:
  "(case start_stream
           \<lparr>path_exists = (\<lambda>p. p = ''nginx/nginx.exe''), path_join = (\<lambda>a b. a @ ''/'' @ b),
            enumerate_devices = Run_FileNotFound, launch_nginx = Launched 1,
            makedirs_error = None\<rparr>
           0
           (add_new_tab
              \<lparr>path_exists = (\<lambda>p. p = ''nginx/nginx.exe''), path_join = (\<lambda>a b. a @ ''/'' @ b),
               enumerate_devices = Run_FileNotFound, launch_nginx = Launched 1,
               makedirs_error = None\<rparr>
              (Some ''Channel 1'') None
              (fresh_app ''ffmpeg.exe'' ''nginx'' ''hls'')) of
      (result, s) \<Rightarrow>
        result = Raised AttributeError
        \<and> map log_view (stream_tabs s) = [[''Starting stream...'']]
        \<and> map ffmpeg_worker (stream_tabs s) = [None]
        \<and> map is_streaming (stream_tabs s) = [False]
        \<and> nginx_process s = Some \<lparr>pid = 1, exited = False\<rparr>)"
  by (simp add: start_stream_def ensure_nginx_running_def nginx_alive_def add_new_tab_def
      new_tab_def populate_devices_def fresh_app_def Let_def app_log_def update_tab_def
      tab_log_def is_video_device_in_use_def truthy_def currentData_def empty_combo_def
      build_ffmpeg_command_def)

section \<open>Stopping the encoder worker\<close>

lemma stop_ends_with_code_0:
  "\<exists>evs. snd (stop outcome wk) = evs @ [Process_finished 0]"
  by (cases outcome) (auto simp: stop_def Let_def split: option.splits)

lemma stop_clears_running: "running (fst (stop outcome wk)) = False"
  by (simp add: stop_def Let_def split: option.splits)

lemma reader_after_stop_with_handle:
  "process wk = Some p \<Longrightarrow> \<not> running wk \<Longrightarrow> snd (run_after_loop rc wk) = []"
  by (simp add: run_after_loop_def)

text \<open>
  C9. The program at the input where the claim fails: the encoder is alive and silent, the
  user stops the channel, the encoder does not leave within five seconds and is
  terminated. \<open>stop\<close> ends with the terminal event 0 and has cleared the process handle;
  the reader thread, woken by the end of the stream, then runs the rest of \<open>run\<close> and its
  last handler emits a second terminal event, with code \<open>-1\<close>.
\<close>

theorem reader_reports_after_stop:
  "(case stop Timeout_Expired
           \<lparr>command = [''ffmpeg.exe''], process = Some \<lparr>poll = None\<rparr>, running = True\<rparr> of
      (wk, evs) \<Rightarrow>
        evs = [Log_message ''Stopping FFmpeg process...'',
               Log_message ''FFmpeg did not stop gracefully, terminating.'',
               Log_message ''FFmpeg process stopped.'',
               Process_finished 0]
        \<and> filter (\<lambda>e. case e of Log_message m \<Rightarrow> False | Process_finished c \<Rightarrow> True)
             (snd (run_after_loop 1 wk)) = [Process_finished (- 1)])"
  by (simp add: stop_def run_after_loop_def Let_def)

section \<open>Properties of the device enumeration\<close>




lemma list_of_set_list: "list_of t (set_list t ds st) = ds"
  by (cases t) (simp_all add: list_of_def set_list_def)











section \<open>Device arbitration\<close>




















subsection \<open>Each step keeps the two facts\<close>

















subsection \<open>A start that meets no obstacle\<close>




section \<open>The example inputs, evaluated\<close>

lemma example_lines:
  "splitlines example_listing =
     [''DirectShow video devices'',
      [dquote, CHR ''C'', CHR ''a'', CHR ''m'', CHR ''A'', dquote],
      [dquote, CHR ''C'', CHR ''a'', CHR ''m'', CHR ''B'', dquote],
      ''DirectShow audio devices'',
      [dquote, CHR ''M'', CHR ''i'', CHR ''c'', dquote]]"
  by (simp add: example_listing_def splitlines_def is_linebreak_def dquote_def)

lemma example_scan:
  "scan_lines initial_scan
     [''DirectShow video devices'',
      [dquote, CHR ''C'', CHR ''a'', CHR ''m'', CHR ''A'', dquote],
      [dquote, CHR ''C'', CHR ''a'', CHR ''m'', CHR ''B'', dquote],
      ''DirectShow audio devices'',
      [dquote, CHR ''M'', CHR ''i'', CHR ''c'', dquote]] =
   (None, \<lparr>video_devices = [\<lparr>name = ''CamA'', alt = ''CamA''\<rparr>, \<lparr>name = ''CamB'', alt = ''CamB''\<rparr>],
           audio_devices = [\<lparr>name = ''Mic'', alt = ''Mic''\<rparr>],
           current_device_type = Some Audio, last_device_list = Some Audio\<rparr>)"
  by (simp add: initial_scan_def scan_line_def video_header_def audio_header_def dquote_def
      device_name_line_def device_name_try_def alternative_name_line_def target_list_def
      py_getitem_def Let_def set_list_def list_of_def last_truthy_def)

lemma example_devices:
  "list_media_devices (enumerate_devices example_world) =
     ([\<lparr>name = ''CamA'', alt = ''CamA''\<rparr>, \<lparr>name = ''CamB'', alt = ''CamB''\<rparr>],
      [\<lparr>name = ''Mic'', alt = ''Mic''\<rparr>], example_listing)"
  by (simp add: example_world_def list_media_devices_def example_lines example_scan
      del: scan_lines.simps)

lemma example_world_fields:
  "path_exists example_world p"
  "path_join example_world a b = a @ ''/'' @ b"
  "launch_nginx example_world = Launched 4242"
  "makedirs_error example_world = None"
  by (simp_all add: example_world_def)

lemma example_populate_fresh:
  "populate_devices example_world p
     (tab\<lparr>input_video_device := empty_combo, input_audio_device := empty_combo\<rparr>)
   = tab\<lparr>input_video_device := camera_box 0, input_audio_device := microphone_box\<rparr>"
  by (simp add: populate_devices_def example_world_fields example_devices fill_def
      addItem_def empty_combo_def restore_selection_def findText_def currentText_def
      py_str_1 py_str_2 camera_box_def microphone_box_def)









subsection \<open>The channel that holds a device is the one named\<close>









section \<open>The abort of a start on a device in use\<close>







section \<open>Channels sharing an audio device\<close>




section \<open>Snapshot and restore\<close>

lemma addItem_fields:
  "items (addItem l d cb) = items cb @ [(l, d)]"
  "currentIndex (addItem l d cb) = (if items cb = [] then Some 0 else currentIndex cb)"
  by (simp_all add: addItem_def)

lemma fold_addItem:
  "fold (\<lambda>it cb. addItem (fst it) (snd it) cb) its cb =
     \<lparr>items = items cb @ its,
      currentIndex = (if items cb = [] then (if its = [] then currentIndex cb else Some 0)
                      else currentIndex cb)\<rparr>"
proof (induction its arbitrary: cb)
  case Nil
  show ?case by simp
next
  case (Cons it its)
  show ?case
    by (simp add: Cons.IH addItem_fields)
qed

lemma fill_eq: "fill its = \<lparr>items = its, currentIndex = (if its = [] then None else Some 0)\<rparr>"
  by (simp add: fill_def fold_addItem empty_combo_def)





















lemma one_camera_lines:
  "splitlines one_camera_listing =
     [''DirectShow video devices'',
      [dquote, CHR ''C'', CHR ''a'', CHR ''m'', CHR ''A'', dquote],
      ''DirectShow audio devices'',
      [dquote, CHR ''M'', CHR ''i'', CHR ''c'', dquote]]"
  by (simp add: one_camera_listing_def splitlines_def is_linebreak_def dquote_def)

lemma one_camera_scan:
  "scan_lines initial_scan
     [''DirectShow video devices'',
      [dquote, CHR ''C'', CHR ''a'', CHR ''m'', CHR ''A'', dquote],
      ''DirectShow audio devices'',
      [dquote, CHR ''M'', CHR ''i'', CHR ''c'', dquote]] =
   (None, \<lparr>video_devices = [\<lparr>name = ''CamA'', alt = ''CamA''\<rparr>],
           audio_devices = [\<lparr>name = ''Mic'', alt = ''Mic''\<rparr>],
           current_device_type = Some Audio, last_device_list = Some Audio\<rparr>)"
  by (simp add: initial_scan_def scan_line_def video_header_def audio_header_def dquote_def
      device_name_line_def device_name_try_def alternative_name_line_def target_list_def
      py_getitem_def Let_def set_list_def list_of_def last_truthy_def)



section \<open>Re-enumerating the devices of a streaming channel\<close>

text \<open>
  Why this step is kept out of the runs above: \<open>populate_devices\<close> has no guard on
  \<open>is_streaming\<close>, and when the enumeration has changed it can change the device that the
  channel shows. Here the second camera has been unplugged, and the streaming channel that
  showed it shows the first camera afterwards, while its encoder goes on with the command
  it was started with.
\<close>

lemma refresh_while_streaming:
  "video_alt_of ((example_tab ''Channel 2'' 1)\<lparr>is_streaming := True\<rparr>) = Some ''CamB''
   \<and> video_alt_of
       (populate_devices one_camera_world ''ffmpeg.exe''
          ((example_tab ''Channel 2'' 1)\<lparr>is_streaming := True\<rparr>)) = Some ''CamA''
   \<and> is_streaming
       (populate_devices one_camera_world ''ffmpeg.exe''
          ((example_tab ''Channel 2'' 1)\<lparr>is_streaming := True\<rparr>))"
proof -
  have l: "list_media_devices (enumerate_devices one_camera_world) =
      ([\<lparr>name = ''CamA'', alt = ''CamA''\<rparr>], [\<lparr>name = ''Mic'', alt = ''Mic''\<rparr>],
       one_camera_listing)"
    by (simp add: one_camera_world_def example_world_def list_media_devices_def
        one_camera_lines one_camera_scan del: scan_lines.simps)
  have e: "path_exists one_camera_world ''ffmpeg.exe''"
    by (simp add: one_camera_world_def example_world_def)
  show ?thesis
    by (simp add: populate_devices_def e l video_alt_of_def example_tab_def camera_box_def
        microphone_box_def currentData_def currentText_def fill_eq restore_selection_def
        findText_def py_str_1)
qed

end
